theory Spec2Isabelle
  imports Main "HOL-Library.Word"
begin

section \<open>PKI.py: contract signing and timestamped confidential messages\<close>

text \<open>
  PKI.py is a thin layer over two collaborators that are not part of the repository: the
  \<^verbatim>\<open>cryptography\<close> package (SHA-256, RSA-PSS, RSA-OAEP, key generation, PEM export) and
  the Python runtime (\<^verbatim>\<open>str.encode\<close>, \<^verbatim>\<open>bytes.decode\<close>, \<^verbatim>\<open>json.dumps\<close>,
  the clock). Their operations are parameters of the model; every function of PKI.py is
  translated line by line on top of them. A call that can raise returns a sum, with the
  exception on the left.
\<close>

subsection \<open>Data\<close>

type_synonym byte = "8 word"

text \<open>The exceptions the collaborators raise; each one is a subclass of \<^verbatim>\<open>Exception\<close>.\<close>

datatype excepcion =
    InvalidSignature
  | ValueError
  | TypeError
  | UnicodeEncodeError
  | UnicodeDecodeError
  | UnsupportedAlgorithm

text \<open>
  The operations PKI.py calls. Random inputs are explicit: the entropy of key generation,
  the PSS salt, the OAEP seed.
  \<^item> \<open>sha256 b\<close>: \<^verbatim>\<open>h = hashes.Hash(hashes.SHA256()); h.update(b); h.finalize()\<close>
  \<^item> \<open>generate_private_key e\<close>: \<^verbatim>\<open>rsa.generate_private_key(65537, 2048)\<close>
  \<^item> \<open>public_key k\<close>: \<^verbatim>\<open>k.public_key()\<close>
  \<^item> \<open>rsa_sign k d salt\<close>: \<^verbatim>\<open>k.sign(d, PSS(MGF1(SHA256), MAX_LENGTH), SHA256)\<close>
  \<^item> \<open>rsa_verify p s d\<close>: \<^verbatim>\<open>p.verify(s, d, PSS(MGF1(SHA256), MAX_LENGTH), SHA256)\<close>
  \<^item> \<open>rsa_encrypt p b seed\<close>: \<^verbatim>\<open>p.encrypt(b, OAEP(MGF1(SHA256), SHA256, None))\<close>
  \<^item> \<open>rsa_decrypt k c\<close>: \<^verbatim>\<open>k.decrypt(c, OAEP(MGF1(SHA256), SHA256, None))\<close>
  \<^item> \<open>public_bytes_pem p\<close>: \<^verbatim>\<open>p.public_bytes(PEM, SubjectPublicKeyInfo).decode()\<close>
  \<^item> \<open>str_encode s\<close>: \<^verbatim>\<open>s.encode()\<close>; \<open>bytes_decode b\<close>: \<^verbatim>\<open>b.decode()\<close>
\<close>

record ('priv, 'pub) biblioteca =
  sha256 :: "byte list \<Rightarrow> byte list"
  generate_private_key :: "byte list \<Rightarrow> 'priv"
  public_key :: "'priv \<Rightarrow> 'pub"
  rsa_sign :: "'priv \<Rightarrow> byte list \<Rightarrow> byte list \<Rightarrow> excepcion + byte list"
  rsa_verify :: "'pub \<Rightarrow> byte list \<Rightarrow> byte list \<Rightarrow> excepcion + unit"
  rsa_encrypt :: "'pub \<Rightarrow> byte list \<Rightarrow> byte list \<Rightarrow> excepcion + byte list"
  rsa_decrypt :: "'priv \<Rightarrow> byte list \<Rightarrow> excepcion + byte list"
  public_bytes_pem :: "'pub \<Rightarrow> string"
  str_encode :: "string \<Rightarrow> excepcion + byte list"
  bytes_decode :: "byte list \<Rightarrow> excepcion + string"

text \<open>The values \<^verbatim>\<open>json.dumps\<close> is given.\<close>

datatype json =
    JString string
  | JArray "json list"
  | JObject "(string \<times> json) list"

record certificado_digital =
  nombre :: string
  clave_publica_pem :: string

record registro_firma =
  firma :: string
  certificado :: certificado_digital
  sello_tiempo :: string

record DocumentoContrato =
  contenido :: string
  firmas :: "registro_firma list"

subsection \<open>Cryptographic functions\<close>

definition generar_claves :: "('priv, 'pub) biblioteca \<Rightarrow> byte list \<Rightarrow> 'priv \<times> 'pub" where
  "generar_claves lib entropia =
     (let private_key = generate_private_key lib entropia;
          public_key' = public_key lib private_key
      in (private_key, public_key'))"

definition generar_hash :: "('priv, 'pub) biblioteca \<Rightarrow> string \<Rightarrow> excepcion + byte list" where
  "generar_hash lib documento =
     (case str_encode lib documento of
        Inl e \<Rightarrow> Inl e
      | Inr datos \<Rightarrow> Inr (sha256 lib datos))"

definition firmar_documento ::
  "('priv, 'pub) biblioteca \<Rightarrow> byte list \<Rightarrow> byte list \<Rightarrow> 'priv \<Rightarrow> excepcion + byte list" where
  "firmar_documento lib sal hash_documento clave_privada =
     rsa_sign lib clave_privada hash_documento sal"

definition verificar_firma ::
  "('priv, 'pub) biblioteca \<Rightarrow> byte list \<Rightarrow> byte list \<Rightarrow> 'pub \<Rightarrow> bool" where
  "verificar_firma lib hash_documento firma' clave_publica =
     (case rsa_verify lib clave_publica firma' hash_documento of
        Inr u \<Rightarrow> True
      | Inl e \<Rightarrow> False)"

text \<open>
  \<open>ahora_iso\<close> is the string \<^verbatim>\<open>datetime.now(UTC).isoformat()\<close> evaluates to at the call.
\<close>

definition obtener_sello_tiempo :: "string \<Rightarrow> string" where
  "obtener_sello_tiempo ahora_iso = ahora_iso"

subsection \<open>Certificate\<close>

definition obtener_certificado ::
  "('priv, 'pub) biblioteca \<Rightarrow> string \<Rightarrow> 'pub \<Rightarrow> certificado_digital" where
  "obtener_certificado lib nombre' clave_publica =
     \<lparr>nombre = nombre', clave_publica_pem = public_bytes_pem lib clave_publica\<rparr>"

subsection \<open>The document\<close>

text \<open>\<^verbatim>\<open>bytes.hex()\<close>: two lower-case hexadecimal digits per byte.\<close>

definition hex_digit :: "nat \<Rightarrow> char" where
  "hex_digit n = ''0123456789abcdef'' ! (n mod 16)"

definition bytes_hex :: "byte list \<Rightarrow> string" where
  "bytes_hex bs = concat (map (\<lambda>b. [hex_digit (unat b div 16), hex_digit (unat b mod 16)]) bs)"

definition DocumentoContrato_init :: "string \<Rightarrow> DocumentoContrato" where
  "DocumentoContrato_init contenido' = \<lparr>contenido = contenido', firmas = []\<rparr>"

text \<open>The methods take the object and return it as it is after the call.\<close>

definition insertar_firma ::
  "DocumentoContrato \<Rightarrow> byte list \<Rightarrow> certificado_digital \<Rightarrow> string \<Rightarrow> DocumentoContrato" where
  "insertar_firma self firma' certificado' sello_tiempo' =
     self\<lparr>firmas := firmas self @
       [\<lparr>firma = bytes_hex firma', certificado = certificado', sello_tiempo = sello_tiempo'\<rparr>]\<rparr>"

definition json_certificado :: "certificado_digital \<Rightarrow> json" where
  "json_certificado c =
     JObject [(''nombre'', JString (nombre c)),
              (''clave_publica_pem'', JString (clave_publica_pem c))]"

definition json_registro :: "registro_firma \<Rightarrow> json" where
  "json_registro r =
     JObject [(''firma'', JString (firma r)),
              (''certificado'', json_certificado (certificado r)),
              (''sello_tiempo'', JString (sello_tiempo r))]"

text \<open>
  \<open>dumps\<close> is \<^verbatim>\<open>json.dumps(_, indent=2)\<close>. The second component is the object after the
  call.
\<close>

definition exportar ::
  "(json \<Rightarrow> string) \<Rightarrow> DocumentoContrato \<Rightarrow> string \<times> DocumentoContrato" where
  "exportar dumps self =
     (dumps (JObject [(''contenido'', JString (contenido self)),
                      (''firmas'', JArray (map json_registro (firmas self)))]),
      self)"

text \<open>A sequence of \<^verbatim>\<open>insertar_firma\<close> calls on one document, first call first.\<close>

fun insertar_firmas ::
  "DocumentoContrato \<Rightarrow> (byte list \<times> certificado_digital \<times> string) list \<Rightarrow> DocumentoContrato"
where
  "insertar_firmas self [] = self"
| "insertar_firmas self ((f, c, s) # resto) = insertar_firmas (insertar_firma self f c s) resto"

definition registro_de :: "byte list \<times> certificado_digital \<times> string \<Rightarrow> registro_firma" where
  "registro_de e =
     (case e of (f, c, s) \<Rightarrow> \<lparr>firma = bytes_hex f, certificado = c, sello_tiempo = s\<rparr>)"

subsection \<open>Encrypting and decrypting messages\<close>

text \<open>
  \<^verbatim>\<open>s.split("|", 1)\<close>: the string itself when it holds no bar, otherwise what precedes
  the first bar and what follows it.
\<close>

definition split_barra_1 :: "string \<Rightarrow> string list" where
  "split_barra_1 s =
     (if CHR ''|'' \<in> set s
      then [takeWhile (\<lambda>c. c \<noteq> CHR ''|'') s, tl (dropWhile (\<lambda>c. c \<noteq> CHR ''|'') s)]
      else [s])"

definition cifrar_mensaje ::
  "('priv, 'pub) biblioteca \<Rightarrow> string \<Rightarrow> byte list \<Rightarrow> string \<Rightarrow> 'pub
     \<Rightarrow> excepcion + (byte list \<times> string)" where
  "cifrar_mensaje lib ahora_iso semilla mensaje clave_publica =
     (let sello_tiempo' = obtener_sello_tiempo ahora_iso;
          mensaje_con_sello = sello_tiempo' @ ''|'' @ mensaje
      in case str_encode lib mensaje_con_sello of
           Inl e \<Rightarrow> Inl e
         | Inr datos \<Rightarrow>
             (case rsa_encrypt lib clave_publica datos semilla of
                Inl e \<Rightarrow> Inl e
              | Inr mensaje_cifrado \<Rightarrow> Inr (mensaje_cifrado, sello_tiempo')))"

definition descifrar_mensaje ::
  "('priv, 'pub) biblioteca \<Rightarrow> byte list \<Rightarrow> 'priv \<Rightarrow> string \<Rightarrow> excepcion + string" where
  "descifrar_mensaje lib mensaje_cifrado clave_privada sello_tiempo_esperado =
     (case rsa_decrypt lib clave_privada mensaje_cifrado of
        Inl e \<Rightarrow> Inl e
      | Inr datos \<Rightarrow>
          (case bytes_decode lib datos of
             Inl e \<Rightarrow> Inl e
           | Inr mensaje_descifrado \<Rightarrow>
               (case split_barra_1 mensaje_descifrado of
                  [sello_tiempo_recibido, mensaje] \<Rightarrow>
                    if sello_tiempo_recibido = sello_tiempo_esperado
                    then Inr mensaje
                    else Inr ''Error: El sello de tiempo no coincide.''
                | _ \<Rightarrow> Inl ValueError)))"

subsection \<open>What the collaborators guarantee\<close>

text \<open>
  RSA-OAEP decryption with the private key inverts encryption with its public key, and
  \<^verbatim>\<open>bytes.decode\<close> inverts \<^verbatim>\<open>str.encode\<close>. Both are stated for the calls that
  return; an over-long plaintext or an unencodable string raises instead.
\<close>

definition oaep_inverso :: "('priv, 'pub) biblioteca \<Rightarrow> bool" where
  "oaep_inverso lib \<longleftrightarrow>
     (\<forall>k datos semilla c. rsa_encrypt lib (public_key lib k) datos semilla = Inr c
        \<longrightarrow> rsa_decrypt lib k c = Inr datos)"

definition utf8_inverso :: "('priv, 'pub) biblioteca \<Rightarrow> bool" where
  "utf8_inverso lib \<longleftrightarrow>
     (\<forall>s datos. str_encode lib s = Inr datos \<longrightarrow> bytes_decode lib datos = Inr s)"

text \<open>
  The keys of \<open>generar_claves\<close> have a 2048-bit modulus, so OAEP with SHA-256 takes a
  plaintext of at most 256 - 2 * 32 - 2 = 190 bytes: within the limit encryption returns,
  beyond it the library raises \<^verbatim>\<open>ValueError\<close>.
\<close>

definition oaep_limite :: "('priv, 'pub) biblioteca \<Rightarrow> bool" where
  "oaep_limite lib \<longleftrightarrow>
     (\<forall>p datos semilla.
        (length datos \<le> 190 \<longrightarrow> (\<exists>c. rsa_encrypt lib p datos semilla = Inr c)) \<and>
        (190 < length datos \<longrightarrow> rsa_encrypt lib p datos semilla = Inl ValueError))"

text \<open>
  RSA-PSS: signing returns for every data and salt, and what it returns passes the
  verification with the public key of the same pair, for the same data.
\<close>

definition pss_firma :: "('priv, 'pub) biblioteca \<Rightarrow> bool" where
  "pss_firma lib \<longleftrightarrow> (\<forall>k datos sal. \<exists>s. rsa_sign lib k datos sal = Inr s)"

definition pss_correcto :: "('priv, 'pub) biblioteca \<Rightarrow> bool" where
  "pss_correcto lib \<longleftrightarrow>
     (\<forall>k datos sal s. rsa_sign lib k datos sal = Inr s
        \<longrightarrow> rsa_verify lib (public_key lib k) s datos = Inr ())"


subsection \<open>A small instance of the collaborators\<close>

text \<open>
  An instance on which the functions can be evaluated: keys are single bytes, a key pair
  has equal halves, a ciphertext is the data tagged with the key, a signature is the data
  tagged with the key and the first byte of the salt, the plaintext limit is that of OAEP
  with SHA-256 under a 2048-bit modulus (190 bytes), and the digest is the data cut or
  zero-padded to 32 bytes. It stands for the interface only, not for the security of RSA.
\<close>

definition codificar_ejemplo :: "string \<Rightarrow> byte list" where
  "codificar_ejemplo s = map (\<lambda>c. word_of_nat (of_char c)) s"

definition decodificar_ejemplo :: "byte list \<Rightarrow> string" where
  "decodificar_ejemplo b = map (\<lambda>w. char_of (unat w)) b"

definition biblioteca_ejemplo :: "(byte, byte) biblioteca" where
  "biblioteca_ejemplo =
     \<lparr>sha256 = (\<lambda>b. take 32 (b @ replicate 32 0)),
      generate_private_key = (\<lambda>e. case e of [] \<Rightarrow> 0 | k # _ \<Rightarrow> k),
      public_key = (\<lambda>k. k),
      rsa_sign = (\<lambda>k d sal. Inr (k # (case sal of [] \<Rightarrow> 0 | x # _ \<Rightarrow> x) # d)),
      rsa_verify = (\<lambda>p s d. case s of
                                k # x # d' \<Rightarrow> if k = p \<and> d' = d then Inr ()
                                              else Inl InvalidSignature
                              | _ \<Rightarrow> Inl InvalidSignature),
      rsa_encrypt = (\<lambda>p b semilla. if length b \<le> 190 then Inr (p # b) else Inl ValueError),
      rsa_decrypt = (\<lambda>k c. case c of [] \<Rightarrow> Inl ValueError
                              | x # b \<Rightarrow> if x = k then Inr b else Inl ValueError),
      public_bytes_pem = (\<lambda>p. ''PEM''),
      str_encode = (\<lambda>s. Inr (codificar_ejemplo s)),
      bytes_decode = (\<lambda>b. Inr (decodificar_ejemplo b))\<rparr>"

section \<open>Signature verification\<close>

text \<open>
  C4. For every digest, every byte sequence offered as a signature and every public key,
  \<open>verificar_firma\<close> returns a boolean and raises nothing: it is \<open>True\<close> exactly when the
  library's PSS verification accepts the signature for that digest and key, and \<open>False\<close>
  exactly when the verification raises, whatever the exception.
\<close>

theorem verificar_firma_total:
  "(verificar_firma lib h f pub = (rsa_verify lib pub f h = Inr ())) \<and>
   (verificar_firma lib h f pub = False \<longleftrightarrow> (\<exists>e. rsa_verify lib pub f h = Inl e))"
  by (cases "rsa_verify lib pub f h") (simp_all add: verificar_firma_def)

section \<open>The signed document\<close>

lemma firmas_insertar_firma:
  "firmas (insertar_firma d f c s) = firmas d @ [registro_de (f, c, s)]"
  by (simp add: insertar_firma_def registro_de_def)

lemma contenido_insertar_firma: "contenido (insertar_firma d f c s) = contenido d"
  by (simp add: insertar_firma_def)

lemma firmas_insertar_firmas:
  "firmas (insertar_firmas d es) = firmas d @ map registro_de es"
proof (induction es arbitrary: d)
  case Nil
  show ?case by simp
next
  case (Cons e es)
  obtain f c s where e: "e = (f, c, s)" by (cases e)
  show ?case by (simp add: e Cons.IH firmas_insertar_firma)
qed

lemma contenido_insertar_firmas: "contenido (insertar_firmas d es) = contenido d"
proof (induction es arbitrary: d)
  case Nil
  show ?case by simp
next
  case (Cons e es)
  obtain f c s where e: "e = (f, c, s)" by (cases e)
  show ?case by (simp add: e Cons.IH contenido_insertar_firma)
qed

text \<open>
  C5. After any sequence of N \<open>insertar_firma\<close> calls the list of signatures is the former
  list followed by the N new records, in the order of the calls: nothing is dropped,
  merged or moved. The export that follows hands \<^verbatim>\<open>json.dumps\<close> exactly these records in
  this order; for a new document they are N.
\<close>

theorem insertar_firmas_exportar:
  "firmas (insertar_firmas d es) = firmas d @ map registro_de es \<and>
   length (firmas (insertar_firmas d es)) = length (firmas d) + length es \<and>
   fst (exportar dumps (insertar_firmas d es)) =
     dumps (JObject [(''contenido'', JString (contenido d)),
                     (''firmas'', JArray (map json_registro (firmas d) @
                                          map (json_registro \<circ> registro_de) es))]) \<and>
   length (firmas (insertar_firmas (DocumentoContrato_init t) es)) = length es \<and>
   fst (exportar dumps (insertar_firmas (DocumentoContrato_init t) es)) =
     dumps (JObject [(''contenido'', JString t),
                     (''firmas'', JArray (map (json_registro \<circ> registro_de) es))])"
  by (simp add: firmas_insertar_firmas contenido_insertar_firmas exportar_def
      DocumentoContrato_init_def)

text \<open>
  C9. \<open>exportar\<close> leaves the document as it was, content and signatures, and a second
  export of the same state returns the same string.
\<close>

theorem exportar_puro:
  "snd (exportar dumps d) = d \<and>
   contenido (snd (exportar dumps d)) = contenido d \<and>
   firmas (snd (exportar dumps d)) = firmas d \<and>
   fst (exportar dumps (snd (exportar dumps d))) = fst (exportar dumps d)"
  by (simp add: exportar_def)

section \<open>The example instance\<close>

lemma char_byte_char: "char_of (unat (word_of_nat (of_char c) :: byte)) = c"
  by (simp add: unat_of_nat)

lemma decodificar_codificar_ejemplo: "decodificar_ejemplo (codificar_ejemplo s) = s"
  by (induction s) (simp_all add: decodificar_ejemplo_def codificar_ejemplo_def char_byte_char)

lemma oaep_inverso_ejemplo: "oaep_inverso biblioteca_ejemplo"
  by (auto simp add: oaep_inverso_def biblioteca_ejemplo_def split: if_splits)

lemma utf8_inverso_ejemplo: "utf8_inverso biblioteca_ejemplo"
  by (auto simp add: utf8_inverso_def biblioteca_ejemplo_def decodificar_codificar_ejemplo)

lemma sha256_ejemplo_32: "\<forall>b. length (sha256 biblioteca_ejemplo b) = 32"
  by (auto simp add: biblioteca_ejemplo_def)

lemma length_codificar_ejemplo: "length (codificar_ejemplo s) = length s"
  by (simp add: codificar_ejemplo_def)

lemma cifrar_ejemplo:
  "length t + length m < 190 \<Longrightarrow>
   cifrar_mensaje biblioteca_ejemplo t semilla m k = Inr (k # codificar_ejemplo (t @ ''|'' @ m), t)"
  by (simp add: cifrar_mensaje_def obtener_sello_tiempo_def biblioteca_ejemplo_def
      length_codificar_ejemplo)

lemma descifrar_ejemplo:
  "descifrar_mensaje biblioteca_ejemplo (k # codificar_ejemplo s) k e =
     (case split_barra_1 s of
        [r, m] \<Rightarrow> if r = e then Inr m else Inr ''Error: El sello de tiempo no coincide.''
      | _ \<Rightarrow> Inl ValueError)"
  by (simp add: descifrar_mensaje_def biblioteca_ejemplo_def decodificar_codificar_ejemplo)

lemma pss_firma_ejemplo: "pss_firma biblioteca_ejemplo"
  by (simp add: pss_firma_def biblioteca_ejemplo_def)

lemma pss_correcto_ejemplo: "pss_correcto biblioteca_ejemplo"
  by (auto simp add: pss_correcto_def biblioteca_ejemplo_def)


lemma oaep_limite_ejemplo: "oaep_limite biblioteca_ejemplo"
  by (simp add: oaep_limite_def biblioteca_ejemplo_def)

lemma firmar_ejemplo:
  "firmar_documento biblioteca_ejemplo (x # sal) h k = Inr (k # x # h)"
  by (simp add: firmar_documento_def biblioteca_ejemplo_def)

lemma verificar_ejemplo:
  "verificar_firma biblioteca_ejemplo h (k # x # h') p = (k = p \<and> h' = h)"
  by (simp add: verificar_firma_def biblioteca_ejemplo_def)

lemma codificar_sello_ejemplo:
  "str_encode biblioteca_ejemplo (t @ ''|'' @ m) = Inr (codificar_ejemplo (t @ ''|'' @ m))"
  by (simp add: biblioteca_ejemplo_def)

lemma descifrar_vacio_ejemplo:
  "rsa_decrypt biblioteca_ejemplo k [] = Inl ValueError"
  by (simp add: biblioteca_ejemplo_def)


section \<open>Signing and verifying\<close>



text \<open>
  C8. Signing one digest twice with one key, with any two salts, returns two signatures
  and each of them passes \<open>verificar_firma\<close> under the public key. Nothing makes the
  two equal: the signature depends on the salt, and in the example instance the salts
  1 and 2 give two different signatures.
\<close>

theorem firmar_dos_veces:
  assumes "pss_firma lib" and "pss_correcto lib"
  shows "\<exists>s1 s2. firmar_documento lib sal1 h k = Inr s1 \<and>
                 firmar_documento lib sal2 h k = Inr s2 \<and>
                 verificar_firma lib h s1 (public_key lib k) = True \<and>
                 verificar_firma lib h s2 (public_key lib k) = True"
proof -
  from assms(1) obtain s1 where s1: "rsa_sign lib k h sal1 = Inr s1"
    unfolding pss_firma_def by blast
  from assms(1) obtain s2 where s2: "rsa_sign lib k h sal2 = Inr s2"
    unfolding pss_firma_def by blast
  from assms(2) s1 have v1: "rsa_verify lib (public_key lib k) s1 h = Inr ()"
    unfolding pss_correcto_def by blast
  from assms(2) s2 have v2: "rsa_verify lib (public_key lib k) s2 h = Inr ()"
    unfolding pss_correcto_def by blast
  have "firmar_documento lib sal1 h k = Inr s1 \<and> firmar_documento lib sal2 h k = Inr s2 \<and>
        verificar_firma lib h s1 (public_key lib k) = True \<and>
        verificar_firma lib h s2 (public_key lib k) = True"
    by (simp add: firmar_documento_def verificar_firma_def s1 s2 v1 v2)
  then show ?thesis by blast
qed

theorem firmar_dos_veces_witness:
  "pss_firma biblioteca_ejemplo \<and> pss_correcto biblioteca_ejemplo \<and>
   firmar_documento biblioteca_ejemplo [1] [1, 2, 3] 7 = Inr [7, 1, 1, 2, 3] \<and>
   firmar_documento biblioteca_ejemplo [2] [1, 2, 3] 7 = Inr [7, 2, 1, 2, 3] \<and>
   verificar_firma biblioteca_ejemplo [1, 2, 3] [7, 1, 1, 2, 3]
     (public_key biblioteca_ejemplo 7) = True \<and>
   verificar_firma biblioteca_ejemplo [1, 2, 3] [7, 2, 1, 2, 3]
     (public_key biblioteca_ejemplo 7) = True \<and>
   [7, 1, 1, 2, 3] \<noteq> [7, 2, 1, 2, 3 :: byte]"
proof -
  from firmar_dos_veces [OF pss_firma_ejemplo pss_correcto_ejemplo, of "[1]" "[1, 2, 3]" 7 "[2]"]
  obtain s1 s2 where a1: "firmar_documento biblioteca_ejemplo [1] [1, 2, 3] 7 = Inr s1"
    and a2: "firmar_documento biblioteca_ejemplo [2] [1, 2, 3] 7 = Inr s2"
    and b1: "verificar_firma biblioteca_ejemplo [1, 2, 3] s1 (public_key biblioteca_ejemplo 7) = True"
    and b2: "verificar_firma biblioteca_ejemplo [1, 2, 3] s2 (public_key biblioteca_ejemplo 7) = True"
    by blast
  from a1 have s1: "s1 = [7, 1, 1, 2, 3]" by (simp add: firmar_ejemplo)
  from a2 have s2: "s2 = [7, 2, 1, 2, 3]" by (simp add: firmar_ejemplo)
  have d: "[7, 1, 1, 2, 3] \<noteq> [7, 2, 1, 2, 3 :: byte]" by simp
  show ?thesis
    by (intro conjI pss_firma_ejemplo pss_correcto_ejemplo d
        a1 [unfolded s1] a2 [unfolded s2] b1 [unfolded s1] b2 [unfolded s2])
qed


section \<open>Digest\<close>

text \<open>
  C6. \<open>generar_hash\<close> has no state of its own: it is a function of the string, through a
  hash context made anew in each call, so two calls on one string return the same bytes.
  For every string that \<^verbatim>\<open>str.encode\<close> accepts it returns, without raising, the SHA-256
  of the UTF-8 bytes, which is 32 bytes long whenever the library's SHA-256 is.
\<close>

theorem generar_hash_sha256:
  assumes "str_encode lib documento = Inr datos"
      and "\<forall>b. length (sha256 lib b) = 32"
  shows "generar_hash lib documento = Inr (sha256 lib datos) \<and>
         length (sha256 lib datos) = 32"
  using assms by (simp add: generar_hash_def)

theorem generar_hash_sha256_witness:
  "str_encode biblioteca_ejemplo ''abc'' = Inr (codificar_ejemplo ''abc'') \<and>
   (\<forall>b. length (sha256 biblioteca_ejemplo b) = 32) \<and>
   generar_hash biblioteca_ejemplo ''abc'' =
     Inr (sha256 biblioteca_ejemplo (codificar_ejemplo ''abc'')) \<and>
   length (sha256 biblioteca_ejemplo (codificar_ejemplo ''abc'')) = 32"
proof -
  have h1: "str_encode biblioteca_ejemplo ''abc'' = Inr (codificar_ejemplo ''abc'')"
    by (simp add: biblioteca_ejemplo_def)
  from generar_hash_sha256 [OF h1 sha256_ejemplo_32] h1 sha256_ejemplo_32
  show ?thesis by blast
qed

section \<open>Confidential messages\<close>

lemma split_barra_1_sello:
  assumes "CHR ''|'' \<notin> set t"
  shows "split_barra_1 (t @ CHR ''|'' # m) = [t, m]"
proof -
  have a: "takeWhile (\<lambda>c. c \<noteq> CHR ''|'') (t @ CHR ''|'' # m) = t"
    using assms by (induction t) auto
  have b: "dropWhile (\<lambda>c. c \<noteq> CHR ''|'') (t @ CHR ''|'' # m) = CHR ''|'' # m"
    using assms by (induction t) auto
  show ?thesis by (simp only: split_barra_1_def a b) simp
qed

lemma cifrar_mensaje_Inr:
  assumes "cifrar_mensaje lib ahora_iso semilla m p = Inr (c, t)"
  obtains datos where "str_encode lib (ahora_iso @ CHR ''|'' # m) = Inr datos"
    and "rsa_encrypt lib p datos semilla = Inr c" and "t = ahora_iso"
  using assms
  by (auto simp add: cifrar_mensaje_def obtener_sello_tiempo_def Let_def split: sum.splits)

lemma descifrar_mensaje_texto:
  assumes "rsa_decrypt lib k c = Inr datos"
      and "bytes_decode lib datos = Inr (t @ CHR ''|'' # m)"
      and "CHR ''|'' \<notin> set t"
  shows "descifrar_mensaje lib c k e =
      (if t = e then Inr m else Inr ''Error: El sello de tiempo no coincide.'')"
  by (simp add: descifrar_mensaje_def assms split_barra_1_sello)

lemma cifrar_descifrar:
  assumes "oaep_inverso lib" and "utf8_inverso lib"
      and "CHR ''|'' \<notin> set ahora_iso"
      and "cifrar_mensaje lib ahora_iso semilla m (public_key lib k) = Inr (c, t)"
  shows "descifrar_mensaje lib c k t = Inr m"
proof -
  from assms(4) obtain datos where
    enc: "str_encode lib (ahora_iso @ CHR ''|'' # m) = Inr datos" and
    cif: "rsa_encrypt lib (public_key lib k) datos semilla = Inr c" and
    t: "t = ahora_iso"
    by (rule cifrar_mensaje_Inr)
  from assms(1) cif have dec: "rsa_decrypt lib k c = Inr datos"
    by (simp add: oaep_inverso_def)
  from assms(2) enc have texto: "bytes_decode lib datos = Inr (ahora_iso @ CHR ''|'' # m)"
    by (simp add: utf8_inverso_def)
  show ?thesis
    by (simp add: descifrar_mensaje_texto [OF dec texto assms(3)] t)
qed

text \<open>
  C2, as the code has it. For every message, bars included, and every key pair of the
  library: when the UTF-8 encoding of \<^verbatim>\<open>timestamp|message\<close> has at most 190 bytes, the
  OAEP limit of the 2048-bit keys, \<open>cifrar_mensaje\<close> returns a ciphertext and the
  timestamp, and \<open>descifrar_mensaje\<close> on that ciphertext with the private key and that
  timestamp returns the message; when it has more, \<open>cifrar_mensaje\<close> raises
  \<^verbatim>\<open>ValueError\<close> and there is no ciphertext. The clock's ISO-8601 string holds no bar.
\<close>

theorem cifrar_descifrar_limite:
  assumes "oaep_limite lib" and "oaep_inverso lib" and "utf8_inverso lib"
      and "CHR ''|'' \<notin> set ahora_iso"
      and "str_encode lib (ahora_iso @ ''|'' @ m) = Inr datos"
  shows "(length datos \<le> 190 \<longrightarrow>
            (\<exists>c. cifrar_mensaje lib ahora_iso semilla m (public_key lib k) = Inr (c, ahora_iso) \<and>
                 descifrar_mensaje lib c k ahora_iso = Inr m)) \<and>
         (190 < length datos \<longrightarrow>
            cifrar_mensaje lib ahora_iso semilla m (public_key lib k) = Inl ValueError)"
proof (intro conjI impI)
  assume corto: "length datos \<le> 190"
  with assms(1) obtain c where c: "rsa_encrypt lib (public_key lib k) datos semilla = Inr c"
    unfolding oaep_limite_def by blast
  have cif: "cifrar_mensaje lib ahora_iso semilla m (public_key lib k) = Inr (c, ahora_iso)"
    using assms(5) by (simp add: cifrar_mensaje_def obtener_sello_tiempo_def c)
  have "descifrar_mensaje lib c k ahora_iso = Inr m"
    by (rule cifrar_descifrar [OF assms(2) assms(3) assms(4) cif])
  with cif show "\<exists>c. cifrar_mensaje lib ahora_iso semilla m (public_key lib k) = Inr (c, ahora_iso) \<and>
                 descifrar_mensaje lib c k ahora_iso = Inr m"
    by blast
next
  assume largo: "190 < length datos"
  with assms(1) have "rsa_encrypt lib (public_key lib k) datos semilla = Inl ValueError"
    unfolding oaep_limite_def by blast
  then show "cifrar_mensaje lib ahora_iso semilla m (public_key lib k) = Inl ValueError"
    using assms(5) by (simp add: cifrar_mensaje_def obtener_sello_tiempo_def)
qed

theorem cifrar_descifrar_limite_witness:
  "oaep_limite biblioteca_ejemplo \<and> oaep_inverso biblioteca_ejemplo \<and>
   utf8_inverso biblioteca_ejemplo \<and>
   CHR ''|'' \<notin> set ''2024-05-01T12:34:56.789012+00:00'' \<and>
   str_encode biblioteca_ejemplo (''2024-05-01T12:34:56.789012+00:00'' @ ''|'' @ ''a|b'') =
     Inr (codificar_ejemplo (''2024-05-01T12:34:56.789012+00:00'' @ ''|'' @ ''a|b'')) \<and>
   length (codificar_ejemplo (''2024-05-01T12:34:56.789012+00:00'' @ ''|'' @ ''a|b'')) \<le> 190 \<and>
   cifrar_mensaje biblioteca_ejemplo ''2024-05-01T12:34:56.789012+00:00'' [] ''a|b''
       (public_key biblioteca_ejemplo 7) =
     Inr (7 # codificar_ejemplo (''2024-05-01T12:34:56.789012+00:00'' @ ''|'' @ ''a|b''),
          ''2024-05-01T12:34:56.789012+00:00'') \<and>
   descifrar_mensaje biblioteca_ejemplo
       (7 # codificar_ejemplo (''2024-05-01T12:34:56.789012+00:00'' @ ''|'' @ ''a|b''))
       7 ''2024-05-01T12:34:56.789012+00:00'' = Inr ''a|b'' \<and>
   str_encode biblioteca_ejemplo
       (''2024-05-01T12:34:56.789012+00:00'' @ ''|'' @ replicate 200 (CHR ''b'')) =
     Inr (codificar_ejemplo
       (''2024-05-01T12:34:56.789012+00:00'' @ ''|'' @ replicate 200 (CHR ''b''))) \<and>
   190 < length (codificar_ejemplo
       (''2024-05-01T12:34:56.789012+00:00'' @ ''|'' @ replicate 200 (CHR ''b''))) \<and>
   cifrar_mensaje biblioteca_ejemplo ''2024-05-01T12:34:56.789012+00:00'' []
       (replicate 200 (CHR ''b'')) (public_key biblioteca_ejemplo 7) = Inl ValueError"
proof -
  have h4: "CHR ''|'' \<notin> set ''2024-05-01T12:34:56.789012+00:00''" by simp
  note h5 = codificar_sello_ejemplo [of "''2024-05-01T12:34:56.789012+00:00''" "''a|b''"]
  note h5' = codificar_sello_ejemplo
    [of "''2024-05-01T12:34:56.789012+00:00''" "replicate 200 (CHR ''b'')"]
  have corto:
    "length (codificar_ejemplo (''2024-05-01T12:34:56.789012+00:00'' @ ''|'' @ ''a|b'')) \<le> 190"
    by (simp add: length_codificar_ejemplo)
  have largo: "190 < length (codificar_ejemplo
       (''2024-05-01T12:34:56.789012+00:00'' @ ''|'' @ replicate 200 (CHR ''b'')))"
    by (simp add: length_codificar_ejemplo)
  note t = cifrar_descifrar_limite
    [OF oaep_limite_ejemplo oaep_inverso_ejemplo utf8_inverso_ejemplo h4 h5, of "[]" 7]
  note t' = cifrar_descifrar_limite
    [OF oaep_limite_ejemplo oaep_inverso_ejemplo utf8_inverso_ejemplo h4 h5', of "[]" 7]
  from t [THEN conjunct1, rule_format, OF corto] obtain c where
    a: "cifrar_mensaje biblioteca_ejemplo ''2024-05-01T12:34:56.789012+00:00'' [] ''a|b''
          (public_key biblioteca_ejemplo 7) = Inr (c, ''2024-05-01T12:34:56.789012+00:00'')"
    and b: "descifrar_mensaje biblioteca_ejemplo c 7 ''2024-05-01T12:34:56.789012+00:00'' =
          Inr ''a|b''"
    by blast
  have "cifrar_mensaje biblioteca_ejemplo ''2024-05-01T12:34:56.789012+00:00'' [] ''a|b''
          (public_key biblioteca_ejemplo 7) =
        Inr (7 # codificar_ejemplo (''2024-05-01T12:34:56.789012+00:00'' @ ''|'' @ ''a|b''),
             ''2024-05-01T12:34:56.789012+00:00'')"
    by (subst cifrar_ejemplo) (simp_all add: biblioteca_ejemplo_def)
  with a have c:
    "c = 7 # codificar_ejemplo (''2024-05-01T12:34:56.789012+00:00'' @ ''|'' @ ''a|b'')"
    by simp
  note e = t' [THEN conjunct2, rule_format, OF largo]
  show ?thesis
    by (intro conjI oaep_limite_ejemplo oaep_inverso_ejemplo utf8_inverso_ejemplo h4 h5 h5'
        corto largo a [unfolded c] b [unfolded c] e)
qed

text \<open>
  C2 as the specification words it fails: with the 32-character timestamp of the clock, a
  message of 158 letters makes a plaintext of 191 bytes, and \<open>cifrar_mensaje\<close> raises
  \<^verbatim>\<open>ValueError\<close> instead of returning a ciphertext to decrypt.
\<close>

theorem cifrar_descifrar_limite_counterexample:
  "cifrar_mensaje biblioteca_ejemplo ''2024-05-01T12:34:56.789012+00:00'' []
     (replicate 158 (CHR ''a'')) (public_key biblioteca_ejemplo 7) = Inl ValueError"
  by (simp add: cifrar_mensaje_def obtener_sello_tiempo_def biblioteca_ejemplo_def
      length_codificar_ejemplo)


text \<open>
  C3, as the code has it. For every ciphertext that \<open>cifrar_mensaje\<close> returns and every
  expected timestamp other than the one it returned, \<open>descifrar_mensaje\<close> returns the
  fixed string \<^verbatim>\<open>Error: El sello de tiempo no coincide.\<close> as an ordinary result, in the
  place where a plaintext is returned; the result differs from the plaintext whenever the
  message is not that very string. A decryption that fails in the library, by contrast, is
  raised as the library's exception, whatever the expected timestamp, and is never turned
  into that string.
\<close>

theorem descifrar_sello_distinto:
  assumes "oaep_inverso lib" and "utf8_inverso lib"
      and "CHR ''|'' \<notin> set ahora_iso"
      and "cifrar_mensaje lib ahora_iso semilla m (public_key lib k) = Inr (c, t)"
      and "esperado \<noteq> t"
  shows "descifrar_mensaje lib c k esperado = Inr ''Error: El sello de tiempo no coincide.'' \<and>
         (m \<noteq> ''Error: El sello de tiempo no coincide.'' \<longrightarrow>
            descifrar_mensaje lib c k esperado \<noteq> Inr m) \<and>
         (rsa_decrypt lib k c' = Inl e \<longrightarrow> descifrar_mensaje lib c' k esperado' = Inl e)"
proof -
  from assms(4) obtain datos where
    enc: "str_encode lib (ahora_iso @ CHR ''|'' # m) = Inr datos" and
    cif: "rsa_encrypt lib (public_key lib k) datos semilla = Inr c" and
    t: "t = ahora_iso"
    by (rule cifrar_mensaje_Inr)
  from assms(1) cif have dec: "rsa_decrypt lib k c = Inr datos"
    by (simp add: oaep_inverso_def)
  from assms(2) enc have texto: "bytes_decode lib datos = Inr (ahora_iso @ CHR ''|'' # m)"
    by (simp add: utf8_inverso_def)
  have a: "descifrar_mensaje lib c k esperado = Inr ''Error: El sello de tiempo no coincide.''"
    using assms(5) by (simp add: descifrar_mensaje_texto [OF dec texto assms(3)] t)
  have b: "rsa_decrypt lib k c' = Inl e \<longrightarrow> descifrar_mensaje lib c' k esperado' = Inl e"
    by (simp add: descifrar_mensaje_def)
  from a b show ?thesis by simp
qed

theorem descifrar_sello_distinto_witness:
  "oaep_inverso biblioteca_ejemplo \<and> utf8_inverso biblioteca_ejemplo \<and>
   CHR ''|'' \<notin> set ''2024-05-01T12:34:56+00:00'' \<and>
   cifrar_mensaje biblioteca_ejemplo ''2024-05-01T12:34:56+00:00'' [] ''hola''
       (public_key biblioteca_ejemplo 7) =
     Inr (7 # codificar_ejemplo (''2024-05-01T12:34:56+00:00'' @ ''|'' @ ''hola''),
          ''2024-05-01T12:34:56+00:00'') \<and>
   ''2024-05-01T12:34:57+00:00'' \<noteq> ''2024-05-01T12:34:56+00:00'' \<and>
   descifrar_mensaje biblioteca_ejemplo
       (7 # codificar_ejemplo (''2024-05-01T12:34:56+00:00'' @ ''|'' @ ''hola''))
       7 ''2024-05-01T12:34:57+00:00'' =
     Inr ''Error: El sello de tiempo no coincide.'' \<and>
   ''hola'' \<noteq> ''Error: El sello de tiempo no coincide.'' \<and>
   descifrar_mensaje biblioteca_ejemplo
       (7 # codificar_ejemplo (''2024-05-01T12:34:56+00:00'' @ ''|'' @ ''hola''))
       7 ''2024-05-01T12:34:57+00:00'' \<noteq>
      Inr ''hola'' \<and>
   rsa_decrypt biblioteca_ejemplo 7 [] = Inl ValueError \<and>
   descifrar_mensaje biblioteca_ejemplo [] 7 ''2024-05-01T12:34:57+00:00'' = Inl ValueError"
proof -
  have h3: "CHR ''|'' \<notin> set ''2024-05-01T12:34:56+00:00''" by simp
  have h4: "cifrar_mensaje biblioteca_ejemplo ''2024-05-01T12:34:56+00:00'' [] ''hola''
      (public_key biblioteca_ejemplo 7) =
     Inr (7 # codificar_ejemplo (''2024-05-01T12:34:56+00:00'' @ ''|'' @ ''hola''),
          ''2024-05-01T12:34:56+00:00'')"
    by (subst cifrar_ejemplo) (simp_all add: biblioteca_ejemplo_def)
  have h5: "''2024-05-01T12:34:57+00:00'' \<noteq> ''2024-05-01T12:34:56+00:00''" by simp
  have h6: "''hola'' \<noteq> ''Error: El sello de tiempo no coincide.''" by simp
  note h7 = descifrar_vacio_ejemplo [of 7]
  note t = descifrar_sello_distinto
    [OF oaep_inverso_ejemplo utf8_inverso_ejemplo h3 h4 h5,
     where c' = "[]" and e = ValueError and esperado' = "''2024-05-01T12:34:57+00:00''"]
  note a = t [THEN conjunct1]
  note b = t [THEN conjunct2, THEN conjunct1, rule_format, OF h6]
  note c = t [THEN conjunct2, THEN conjunct2, rule_format, OF h7]
  show ?thesis
    by (intro conjI oaep_inverso_ejemplo utf8_inverso_ejemplo h3 h4 h5 h6 h7 a b c)
qed

text \<open>
  C3 as the specification words it fails: the message
  \<^verbatim>\<open>Error: El sello de tiempo no coincide.\<close>, encrypted at 12:34:56 and decrypted with
  the expected timestamp 12:34:57, comes back as the plaintext itself, in the plaintext's
  place and type.
\<close>

theorem descifrar_sello_distinto_counterexample:
  "cifrar_mensaje biblioteca_ejemplo ''2024-05-01T12:34:56+00:00'' []
      ''Error: El sello de tiempo no coincide.'' 7 =
     Inr (7 # codificar_ejemplo (''2024-05-01T12:34:56+00:00'' @ ''|'' @ ''Error: El sello de tiempo no coincide.''),
          ''2024-05-01T12:34:56+00:00'') \<and>
   ''2024-05-01T12:34:57+00:00'' \<noteq> ''2024-05-01T12:34:56+00:00'' \<and>
   descifrar_mensaje biblioteca_ejemplo
       (7 # codificar_ejemplo (''2024-05-01T12:34:56+00:00'' @ ''|'' @ ''Error: El sello de tiempo no coincide.''))
       7 ''2024-05-01T12:34:57+00:00'' =
     Inr ''Error: El sello de tiempo no coincide.''"
proof (intro conjI)
  show "cifrar_mensaje biblioteca_ejemplo ''2024-05-01T12:34:56+00:00'' []
      ''Error: El sello de tiempo no coincide.'' 7 =
     Inr (7 # codificar_ejemplo (''2024-05-01T12:34:56+00:00'' @ ''|'' @ ''Error: El sello de tiempo no coincide.''),
          ''2024-05-01T12:34:56+00:00'')"
    by (subst cifrar_ejemplo) simp_all
  show "''2024-05-01T12:34:57+00:00'' \<noteq> ''2024-05-01T12:34:56+00:00''" by simp
  show "descifrar_mensaje biblioteca_ejemplo
      (7 # codificar_ejemplo (''2024-05-01T12:34:56+00:00'' @ ''|'' @ ''Error: El sello de tiempo no coincide.''))
      7 ''2024-05-01T12:34:57+00:00'' =
     Inr ''Error: El sello de tiempo no coincide.''"
    by (subst descifrar_ejemplo) (simp add: split_barra_1_def)
qed

text \<open>
  C10. When the timestamp in the decrypted text is not the expected one,
  \<open>descifrar_mensaje\<close> returns the string \<^verbatim>\<open>Error: El sello de tiempo no coincide.\<close> as
  its ordinary result. A message equal to that string, decrypted with its own timestamp,
  returns the same value: the two outcomes are equal.
\<close>

theorem descifrar_error_mismo_canal:
  assumes "rsa_decrypt lib k c = Inr datos"
      and "bytes_decode lib datos = Inr (recibido @ ''|'' @ m)"
      and "CHR ''|'' \<notin> set recibido"
      and "recibido \<noteq> esperado"
      and "rsa_decrypt lib k c' = Inr datos'"
      and "bytes_decode lib datos' = Inr (t @ ''|'' @ ''Error: El sello de tiempo no coincide.'')"
      and "CHR ''|'' \<notin> set t"
  shows "descifrar_mensaje lib c k esperado = Inr ''Error: El sello de tiempo no coincide.'' \<and>
         descifrar_mensaje lib c' k t = Inr ''Error: El sello de tiempo no coincide.'' \<and>
         descifrar_mensaje lib c k esperado = descifrar_mensaje lib c' k t"
proof -
  from assms(2) have texto: "bytes_decode lib datos = Inr (recibido @ CHR ''|'' # m)"
    by simp
  from assms(6) have texto': "bytes_decode lib datos' =
      Inr (t @ CHR ''|'' # ''Error: El sello de tiempo no coincide.'')"
    by simp
  have a: "descifrar_mensaje lib c k esperado = Inr ''Error: El sello de tiempo no coincide.''"
    using assms(4) by (simp add: descifrar_mensaje_texto [OF assms(1) texto assms(3)])
  have b: "descifrar_mensaje lib c' k t = Inr ''Error: El sello de tiempo no coincide.''"
    by (simp add: descifrar_mensaje_texto [OF assms(5) texto' assms(7)])
  from a b show ?thesis by simp
qed

theorem descifrar_error_mismo_canal_witness:
  "rsa_decrypt biblioteca_ejemplo 7
      (7 # codificar_ejemplo (''2024-05-01T12:34:56+00:00'' @ ''|'' @ ''hola'')) =
     Inr (codificar_ejemplo (''2024-05-01T12:34:56+00:00'' @ ''|'' @ ''hola'')) \<and>
   bytes_decode biblioteca_ejemplo
       (codificar_ejemplo (''2024-05-01T12:34:56+00:00'' @ ''|'' @ ''hola'')) =
     Inr (''2024-05-01T12:34:56+00:00'' @ ''|'' @ ''hola'') \<and>
   CHR ''|'' \<notin> set ''2024-05-01T12:34:56+00:00'' \<and>
   ''2024-05-01T12:34:56+00:00'' \<noteq> ''2024-05-01T12:34:57+00:00'' \<and>
   rsa_decrypt biblioteca_ejemplo 7
       (7 # codificar_ejemplo (''2024-05-01T12:34:56+00:00'' @ ''|'' @ ''Error: El sello de tiempo no coincide.'')) =
     Inr (codificar_ejemplo (''2024-05-01T12:34:56+00:00'' @ ''|'' @ ''Error: El sello de tiempo no coincide.'')) \<and>
   bytes_decode biblioteca_ejemplo
       (codificar_ejemplo (''2024-05-01T12:34:56+00:00'' @ ''|'' @ ''Error: El sello de tiempo no coincide.'')) =
     Inr (''2024-05-01T12:34:56+00:00'' @ ''|'' @ ''Error: El sello de tiempo no coincide.'') \<and>
   descifrar_mensaje biblioteca_ejemplo
       (7 # codificar_ejemplo (''2024-05-01T12:34:56+00:00'' @ ''|'' @ ''hola''))
       7 ''2024-05-01T12:34:57+00:00'' =
     Inr ''Error: El sello de tiempo no coincide.'' \<and>
   descifrar_mensaje biblioteca_ejemplo
       (7 # codificar_ejemplo (''2024-05-01T12:34:56+00:00'' @ ''|'' @ ''Error: El sello de tiempo no coincide.''))
       7 ''2024-05-01T12:34:56+00:00'' =
     Inr ''Error: El sello de tiempo no coincide.'' \<and>
   descifrar_mensaje biblioteca_ejemplo
       (7 # codificar_ejemplo (''2024-05-01T12:34:56+00:00'' @ ''|'' @ ''hola''))
       7 ''2024-05-01T12:34:57+00:00'' =
   descifrar_mensaje biblioteca_ejemplo
       (7 # codificar_ejemplo (''2024-05-01T12:34:56+00:00'' @ ''|'' @ ''Error: El sello de tiempo no coincide.''))
       7 ''2024-05-01T12:34:56+00:00''"
proof -
  have h1: "rsa_decrypt biblioteca_ejemplo 7
      (7 # codificar_ejemplo (''2024-05-01T12:34:56+00:00'' @ ''|'' @ ''hola'')) =
     Inr (codificar_ejemplo (''2024-05-01T12:34:56+00:00'' @ ''|'' @ ''hola''))"
    by (simp add: biblioteca_ejemplo_def)
  have h2: "bytes_decode biblioteca_ejemplo
      (codificar_ejemplo (''2024-05-01T12:34:56+00:00'' @ ''|'' @ ''hola'')) =
     Inr (''2024-05-01T12:34:56+00:00'' @ ''|'' @ ''hola'')"
    by (simp only: biblioteca_ejemplo_def biblioteca.simps decodificar_codificar_ejemplo)
  have h3: "CHR ''|'' \<notin> set ''2024-05-01T12:34:56+00:00''" by simp
  have h4: "''2024-05-01T12:34:56+00:00'' \<noteq> ''2024-05-01T12:34:57+00:00''" by simp
  have h5: "rsa_decrypt biblioteca_ejemplo 7
      (7 # codificar_ejemplo (''2024-05-01T12:34:56+00:00'' @ ''|'' @ ''Error: El sello de tiempo no coincide.'')) =
     Inr (codificar_ejemplo (''2024-05-01T12:34:56+00:00'' @ ''|'' @ ''Error: El sello de tiempo no coincide.''))"
    by (simp add: biblioteca_ejemplo_def)
  have h6: "bytes_decode biblioteca_ejemplo
      (codificar_ejemplo (''2024-05-01T12:34:56+00:00'' @ ''|'' @ ''Error: El sello de tiempo no coincide.'')) =
     Inr (''2024-05-01T12:34:56+00:00'' @ ''|'' @ ''Error: El sello de tiempo no coincide.'')"
    by (simp only: biblioteca_ejemplo_def biblioteca.simps decodificar_codificar_ejemplo)
  from descifrar_error_mismo_canal [OF h1 h2 h3 h4 h5 h6 h3] h1 h2 h3 h4 h5 h6
  show ?thesis by blast
qed

end
